theory Spec2Isabelle
  imports Main
begin

section \<open>Generic extensions of p-adic rings and fields\<close>

text \<open>
  A shallow embedding of the class \<open>pAdicExtensionGeneric\<close> of
  \<^verbatim>\<open>sage/rings/padics/padic_extension_generic.py\<close>. The class is glue between the
  polynomial classes, the p-adic base rings, the printers and the coercion framework.
  Objects of those classes are represented by the attributes the methods of this class
  read; their own methods (\<open>==\<close> on polynomials and base rings, \<open>richcmp_modes\<close>,
  \<open>change\<close>, element arithmetic, random sampling) are collaborators and enter every
  definition as parameters.
\<close>

subsection \<open>Python values\<close>

datatype py_error = UnboundLocalError | AttributeError | TypeError

datatype py_value = PyBool bool | PyInt int | PyStr string

text \<open>A print-mode dictionary: print options by name.\<close>

type_synonym print_mode = "string \<rightharpoonup> py_value"

datatype richcmp_op = op_LT | op_LE | op_EQ | op_NE | op_GT | op_GE

subsection \<open>Data model\<close>

text \<open>
  A polynomial object: its coefficient ring (\<open>base_ring()\<close>) and its coefficients
  \<open>a\<^sub>0, \<dots>, a\<^sub>n\<close>, leading coefficient last. \<open>degree()\<close> is the index of the leading
  coefficient, \<open>-1\<close> for the zero polynomial.
\<close>

datatype 'r polynomial = Polynomial (base_ring: 'r) (coefficients: "int list")

definition degree_poly :: "'r polynomial \<Rightarrow> int" where
  "degree_poly f = int (length (coefficients f)) - 1"

text \<open>The printer object \<open>_printer\<close>; \<open>dict()\<close> exports its configuration.\<close>

datatype pAdicPrinter = Printer (dict: print_mode)

text \<open>An instance of \<open>pAdicBaseGeneric\<close>: a ring \<open>Zp\<close> or a field \<open>Qp\<close>.\<close>

datatype padic_base = PAdicBaseRing (prime: nat) (base_precision_cap: int) (base_is_field: bool)

text \<open>
  The state of an instance of \<open>pAdicExtensionGeneric\<close> once its constructors have run:
  \<open>_given_poly\<close> is stored by \<open>__init__\<close>; \<open>_exact_modulus\<close> and \<open>_implementation\<close> are
  stored by the constructor of the concrete subclass; \<open>precision_cap()\<close>, \<open>_prec_type()\<close>,
  \<open>is_field()\<close>, \<open>variable_name()\<close> and \<open>base_ring()\<close> are answered by the superclasses
  from what \<open>__init__\<close> hands them. \<open>obj_id\<close> is the identity of the object, which the
  operator \<open>is\<close> compares.
\<close>

datatype 'r descriptor = Descriptor
  (obj_id: nat)
  (given_poly: "'r polynomial")
  (exact_modulus: "'r polynomial")
  (precision_cap: int)
  (printer: pAdicPrinter)
  (implementation: string)
  (prec_type: string)
  (is_field: bool)
  (variable_name: string)
  (parent_base: 'r)

text \<open>
  A Python object as the \<open>isinstance\<close> tests of this class see it: a p-adic base ring, an
  extension, or anything else (named, for instance \<open>ZZ\<close>).
\<close>

datatype py_object =
    PAdicBase padic_base
  | PAdicExtension "py_object descriptor"
  | OtherObject string

type_synonym extension = "py_object descriptor"

definition py_is :: "extension \<Rightarrow> extension \<Rightarrow> bool" where
  "py_is a b = (obj_id a = obj_id b)"

subsection \<open>Collaborators\<close>

text \<open>
  Methods of other classes that the methods below call:
  \<^item> \<open>eq_other a b\<close>: \<open>a == b\<close> where \<open>a\<close> is not an extension (the \<open>__eq__\<close> of its class);
  \<^item> \<open>eq_polynomial\<close>: \<open>==\<close> on polynomials;
  \<^item> \<open>richcmp_modes\<close>: the rich comparison of two printers;
  \<^item> \<open>change self kwds\<close>: \<open>self.change(**kwds)\<close> of \<open>pAdicGeneric\<close>, which may raise.
\<close>

record env =
  eq_other :: "py_object \<Rightarrow> py_object \<Rightarrow> bool"
  eq_polynomial :: "py_object polynomial \<Rightarrow> py_object polynomial \<Rightarrow> bool"
  richcmp_modes :: "pAdicPrinter \<Rightarrow> pAdicPrinter \<Rightarrow> richcmp_op \<Rightarrow> bool"
  change :: "extension \<Rightarrow> (string \<rightharpoonup> py_value) \<Rightarrow> py_error + extension"

subsection \<open>Structural queries\<close>

definition degree :: "extension \<Rightarrow> int" where
  "degree self = degree_poly (given_poly self)"

definition defining_polynomial :: "extension \<Rightarrow> bool \<Rightarrow> py_object polynomial" where
  "defining_polynomial self exact = (if exact then exact_modulus self else given_poly self)"

definition modulus :: "extension \<Rightarrow> bool \<Rightarrow> py_object polynomial" where
  "modulus self exact = defining_polynomial self exact"

definition ground_ring :: "extension \<Rightarrow> py_object" where
  "ground_ring self = base_ring (given_poly self)"

definition base_ring_of :: "extension \<Rightarrow> py_object" where
  "base_ring_of self = parent_base self"

text \<open>
  \<open>ground_ring_of_tower\<close>: an object that is neither a base ring nor an extension has no
  method of that name, and the call on it raises \<open>AttributeError\<close>.
\<close>

function ground_ring_of_tower :: "extension \<Rightarrow> py_error + py_object" where
  "ground_ring_of_tower self =
     (case ground_ring self of
        PAdicBase b \<Rightarrow> Inr (ground_ring self)
      | PAdicExtension g \<Rightarrow> ground_ring_of_tower g
      | OtherObject n \<Rightarrow> Inl AttributeError)"
  by pat_completeness auto
termination
proof (relation "measure (\<lambda>d. size (PAdicExtension d))")
  show "wf (measure (\<lambda>d. size (PAdicExtension d)))" by simp
next
  fix self :: extension and g
  assume "ground_ring self = PAdicExtension g"
  then show "(g, self) \<in> measure (\<lambda>d. size (PAdicExtension d))"
    by (cases self; cases "given_poly self") (auto simp: ground_ring_def)
qed

text \<open>
  The same method run on a stack that holds at most \<open>k\<close> nested calls of it: \<open>None\<close> when
  the recursion needs more.
\<close>

fun ground_ring_of_tower_depth :: "nat \<Rightarrow> extension \<Rightarrow> (py_error + py_object) option" where
  "ground_ring_of_tower_depth 0 self = None"
| "ground_ring_of_tower_depth (Suc k) self =
     (case ground_ring self of
        PAdicBase b \<Rightarrow> Some (Inr (ground_ring self))
      | PAdicExtension g \<Rightarrow> ground_ring_of_tower_depth k g
      | OtherObject n \<Rightarrow> Some (Inl AttributeError))"

text \<open>
  The height of the tower of ground rings under an extension: the number of extensions
  stacked on a p-adic base ring, \<open>None\<close> when the chain of ground rings ends in an object
  that is not a p-adic ring.
\<close>

function tower_height :: "extension \<Rightarrow> nat option" where
  "tower_height self =
     (case ground_ring self of
        PAdicBase b \<Rightarrow> Some 1
      | PAdicExtension g \<Rightarrow> map_option Suc (tower_height g)
      | OtherObject n \<Rightarrow> None)"
  by pat_completeness auto
termination
proof (relation "measure (\<lambda>d. size (PAdicExtension d))")
  show "wf (measure (\<lambda>d. size (PAdicExtension d)))" by simp
next
  fix self :: extension and g
  assume "ground_ring self = PAdicExtension g"
  then show "(g, self) \<in> measure (\<lambda>d. size (PAdicExtension d))"
    by (cases self; cases "given_poly self") (auto simp: ground_ring_def)
qed

subsection \<open>Equality\<close>

text \<open>
  \<open>__eq__\<close>, and the operator \<open>==\<close> that it applies to the two ground rings: \<open>a == b\<close>
  calls the \<open>__eq__\<close> of the class of \<open>a\<close>, which is the method below when \<open>a\<close> is an
  extension.
\<close>

function dunder_eq :: "env \<Rightarrow> extension \<Rightarrow> py_object \<Rightarrow> bool"
  and py_eq :: "env \<Rightarrow> py_object \<Rightarrow> py_object \<Rightarrow> bool" where
  "dunder_eq E self other =
     (case other of
        PAdicExtension other' \<Rightarrow>
          py_eq E (ground_ring self) (ground_ring other') \<and>
          eq_polynomial E (defining_polynomial self False) (defining_polynomial other' False) \<and>
          precision_cap self = precision_cap other' \<and>
          richcmp_modes E (printer self) (printer other') op_EQ
      | _ \<Rightarrow> False)"
| "py_eq E a b =
     (case a of
        PAdicExtension self \<Rightarrow> dunder_eq E self b
      | _ \<Rightarrow> eq_other E a b)"
  by pat_completeness auto
termination
proof (relation "measure (\<lambda>x. case x of
          Inl (E, self, other) \<Rightarrow> 2 * size (PAdicExtension self)
        | Inr (E, a, b) \<Rightarrow> 2 * size a + 1)")
  show "wf (measure (\<lambda>x. case x of
          Inl (E, self, other) \<Rightarrow> 2 * size (PAdicExtension self)
        | Inr (E :: env, a, b :: py_object) \<Rightarrow> 2 * size a + 1))" by simp
next
  fix E :: env and self :: extension and other :: py_object and x2 :: extension
  show "(Inr (E, ground_ring self, ground_ring x2), Inl (E, self, other))
        \<in> measure (\<lambda>x. case x of
          Inl (E, self, other) \<Rightarrow> 2 * size (PAdicExtension self)
        | Inr (E, a, b) \<Rightarrow> 2 * size a + 1)"
    by (cases self; cases "given_poly self") (auto simp: ground_ring_def)
next
  fix E :: env and a b :: py_object and x2 :: extension
  assume "a = PAdicExtension x2"
  then show "(Inl (E, x2, b), Inr (E, a, b))
        \<in> measure (\<lambda>x. case x of
          Inl (E, self, other) \<Rightarrow> 2 * size (PAdicExtension self)
        | Inr (E, a, b) \<Rightarrow> 2 * size a + 1)"
    by simp
qed

definition dunder_ne :: "env \<Rightarrow> extension \<Rightarrow> py_object \<Rightarrow> bool" where
  "dunder_ne E self other = (\<not> dunder_eq E self other)"

subsection \<open>Fraction field and ring of integers\<close>

text \<open>
  The call \<open>self.change(field=b, **print_mode)\<close>: Python raises \<open>TypeError\<close> at the call
  when the dictionary has the key \<open>field\<close> too (a keyword given twice), otherwise passes
  the dictionary extended by \<open>field\<close>.
\<close>

definition change_field :: "env \<Rightarrow> extension \<Rightarrow> bool \<Rightarrow> print_mode \<Rightarrow> py_error + extension" where
  "change_field E self b kwds =
     (if kwds ''field'' \<noteq> None then Inl TypeError
      else change E self (kwds(''field'' \<mapsto> PyBool b)))"

definition fraction_field :: "env \<Rightarrow> extension \<Rightarrow> print_mode option \<Rightarrow> py_error + extension" where
  "fraction_field E self print_mode =
     (if is_field self \<and> print_mode = None then Inr self
      else case print_mode of
             None \<Rightarrow> change E self [''field'' \<mapsto> PyBool True]
           | Some m \<Rightarrow> change_field E self True m)"

definition integer_ring :: "env \<Rightarrow> extension \<Rightarrow> print_mode option \<Rightarrow> py_error + extension" where
  "integer_ring E self print_mode =
     (if \<not> is_field self \<and> print_mode = None then Inr self
      else case print_mode of
             None \<Rightarrow> change E self [''field'' \<mapsto> PyBool False]
           | Some m \<Rightarrow> change_field E self False m)"

subsection \<open>Coercion\<close>

text \<open>
  What \<open>_coerce_map_from_\<close> returns: \<open>None\<close> (the end of the body is reached), \<open>True\<close>, or
  the object \<open>coerce_map(R, self)\<close> of one of the three imported classes. The local name
  \<open>coerce_map\<close> is bound by the \<open>elif\<close> branches only; reading it unbound raises
  \<open>UnboundLocalError\<close>.
\<close>

datatype coercion_class =
    pAdicCoercion_CA_frac_field
  | pAdicCoercion_CR_frac_field
  | pAdicCoercion_FP_frac_field

datatype coerce_result =
    PyNone
  | PyTrue
  | CoercionMap coercion_class extension extension

definition coerce_map_from :: "env \<Rightarrow> extension \<Rightarrow> py_object \<Rightarrow> py_error + coerce_result" where
  "coerce_map_from E self R =
     (case R of
        PAdicExtension r \<Rightarrow>
          (case fraction_field E r None of
             Inl e \<Rightarrow> Inl e
           | Inr f \<Rightarrow>
               if py_is f self then
                 (if implementation self = ''NTL'' then Inr PyTrue
                  else if prec_type r = ''capped-abs''
                    then Inr (CoercionMap pAdicCoercion_CA_frac_field r self)
                  else if prec_type r = ''capped-rel''
                    then Inr (CoercionMap pAdicCoercion_CR_frac_field r self)
                  else if prec_type r = ''floating-point''
                    then Inr (CoercionMap pAdicCoercion_FP_frac_field r self)
                  else Inl UnboundLocalError)
               else Inr PyNone)
      | _ \<Rightarrow> Inr PyNone)"

subsection \<open>Construction\<close>

text \<open>The object \<open>AlgebraicExtensionFunctor(polys, names, prec=, print_mode=, implementation=)\<close>.\<close>

datatype AlgebraicExtensionFunctor = AEF
  (aef_polys: "py_object polynomial list")
  (aef_names: "string list")
  (aef_prec: int)
  (aef_print_mode: print_mode)
  (aef_implementation: string)

definition construction :: "extension \<Rightarrow> AlgebraicExtensionFunctor \<times> py_object" where
  "construction self =
     (AEF [defining_polynomial self True] [variable_name self]
          (precision_cap self) (dict (printer self)) (implementation self),
      base_ring_of self)"

subsection \<open>Random elements\<close>

text \<open>
  The element arithmetic and the random sampler of the ground ring belong to the element
  classes. \<open>'a\<close> are elements of the ground ring, \<open>'e\<close> the values that the sum runs over
  (elements of the extension, and the Python integer \<open>0\<close> the sum starts from), \<open>'s\<close> the
  state of the random generator, which every call of \<open>random_element()\<close> of the ground
  ring reads and advances.
\<close>

record ('a, 'e, 's) element_ops =
  ground_random_element :: "py_object \<Rightarrow> 's \<Rightarrow> 'a \<times> 's"
  gen :: "extension \<Rightarrow> 'e"
  mul :: "'a \<Rightarrow> 'e \<Rightarrow> 'e"
  pow :: "'e \<Rightarrow> int \<Rightarrow> 'e"
  add :: "'e \<Rightarrow> 'e \<Rightarrow> 'e"
  py_zero :: "'e"

definition py_range :: "int \<Rightarrow> int list" where
  "py_range n = [0..n - 1]"

text \<open>
  The list comprehension
  \<open>[self.ground_ring().random_element() * self.gen()**i for i in \<dots>]\<close>, evaluated from
  left to right.
\<close>

fun random_terms ::
  "('a, 'e, 's) element_ops \<Rightarrow> extension \<Rightarrow> int list \<Rightarrow> 's \<Rightarrow> 'e list \<times> 's" where
  "random_terms ops self [] s = ([], s)"
| "random_terms ops self (i # is) s =
     (let (r, s') = ground_random_element ops (ground_ring self) s;
          t = mul ops r (pow ops (gen ops self) i);
          (ts, s'') = random_terms ops self is s'
      in (t # ts, s''))"

definition random_element :: "('a, 'e, 's) element_ops \<Rightarrow> extension \<Rightarrow> 's \<Rightarrow> 'e \<times> 's" where
  "random_element ops self s =
     (let (ts, s') = random_terms ops self (py_range (degree_poly (modulus self False))) s
      in (foldl (add ops) (py_zero ops) ts, s'))"

text \<open>
  The successive draws from the ground ring, starting in the generator state \<open>s\<close>:
  \<open>state_after ops self s k\<close> is the state after \<open>k\<close> draws and \<open>drawn ops self s k\<close> the
  element that draw number \<open>k\<close> (counted from \<open>0\<close>) yields.
\<close>

primrec state_after :: "('a, 'e, 's) element_ops \<Rightarrow> extension \<Rightarrow> 's \<Rightarrow> nat \<Rightarrow> 's" where
  "state_after ops self s 0 = s"
| "state_after ops self s (Suc k) =
     snd (ground_random_element ops (ground_ring self) (state_after ops self s k))"

definition drawn :: "('a, 'e, 's) element_ops \<Rightarrow> extension \<Rightarrow> 's \<Rightarrow> nat \<Rightarrow> 'a" where
  "drawn ops self s k = fst (ground_random_element ops (ground_ring self) (state_after ops self s k))"

subsection \<open>Equality as the specification words it\<close>

text \<open>
  The equality of two descriptors in the words of the specification: the other operand is
  an extension too, and the ground rings, the exact defining polynomials, the precision
  caps and the print modes are equal.
\<close>

definition spec_equal :: "env \<Rightarrow> extension \<Rightarrow> py_object \<Rightarrow> bool" where
  "spec_equal E self other =
     (case other of
        PAdicExtension other' \<Rightarrow>
          py_eq E (ground_ring self) (ground_ring other') \<and>
          eq_polynomial E (exact_modulus self) (exact_modulus other') \<and>
          precision_cap self = precision_cap other' \<and>
          richcmp_modes E (printer self) (printer other') op_EQ
      | _ \<Rightarrow> False)"

subsection \<open>Example objects\<close>

text \<open>
  The ring of the docstrings: \<open>R = Zp(5,5)\<close>, \<open>f = x^5 + 75*x^3 - 15*x^2 + 125*x - 5\<close>,
  \<open>W.<w> = R.ext(f)\<close>. The working polynomial has the coefficients of \<open>f\<close> in \<open>R\<close>,
  written with their residues modulo \<open>5^6\<close>.
\<close>

definition example_Zp :: py_object where
  "example_Zp = PAdicBase (PAdicBaseRing 5 5 False)"

definition example_ZZ :: py_object where
  "example_ZZ = OtherObject ''ZZ''"

definition example_f :: "py_object polynomial" where
  "example_f = Polynomial example_ZZ [- 5, 125, - 15, 75, 0, 1]"

definition example_f_given :: "py_object polynomial" where
  "example_f_given = Polynomial example_Zp [15620, 125, 15610, 75, 0, 1]"

definition example_printer :: pAdicPrinter where
  "example_printer = Printer [''mode'' \<mapsto> PyStr ''series'', ''var_name'' \<mapsto> PyStr ''w'']"

definition example_W :: extension where
  "example_W = Descriptor 1 example_f_given example_f 25 example_printer
     ''NTL'' ''capped-rel'' False ''w'' example_Zp"

text \<open>
  A second extension of \<open>R\<close>, by \<open>f + 5^6\<close>: over \<open>R\<close> the two polynomials have the same
  coefficients, so the working polynomial is the one of \<open>example_W\<close>.
\<close>

definition example_f_shifted :: "py_object polynomial" where
  "example_f_shifted = Polynomial example_ZZ [15620, 125, - 15, 75, 0, 1]"

definition example_W_shifted :: extension where
  "example_W_shifted = Descriptor 2 example_f_given example_f_shifted 25 example_printer
     ''NTL'' ''capped-rel'' False ''w'' example_Zp"

text \<open>An extension whose ground ring is \<open>example_W\<close>: a tower of height two.\<close>

definition example_tower :: extension where
  "example_tower = Descriptor 3
     (Polynomial (PAdicExtension example_W) [2, 0, 1]) (Polynomial example_ZZ [2, 0, 1])
     50 example_printer ''NTL'' ''capped-rel'' False ''u'' (PAdicExtension example_W)"

text \<open>
  Example collaborators: \<open>==\<close> on polynomials, on other objects and on printers compares
  the values; \<open>change\<close> returns a new object that is a field or not as the keyword
  \<open>field\<close> asks, and takes the other keywords into the printer.
\<close>

definition example_change :: "extension \<Rightarrow> (string \<rightharpoonup> py_value) \<Rightarrow> py_error + extension" where
  "example_change self kwds =
     Inr (Descriptor (obj_id self + 100) (given_poly self) (exact_modulus self)
            (precision_cap self)
            (Printer (dict (printer self) ++ kwds(''field'' := None)))
            (implementation self) (prec_type self)
            (case kwds ''field'' of Some (PyBool b) \<Rightarrow> b | _ \<Rightarrow> is_field self)
            (variable_name self) (parent_base self))"

definition example_env :: env where
  "example_env =
     \<lparr> eq_other = (\<lambda>a b. a = b),
       eq_polynomial = (\<lambda>f g. f = g),
       richcmp_modes = (\<lambda>p q op. case op of op_EQ \<Rightarrow> p = q | op_NE \<Rightarrow> p \<noteq> q | _ \<Rightarrow> False),
       change = example_change \<rparr>"

text \<open>
  An unramified extension on the FLINT backend with the precision discipline
  \<open>fixed-mod\<close>, and the field that \<open>example_change\<close> makes of it.
\<close>

definition example_U :: extension where
  "example_U = Descriptor 7
     (Polynomial example_Zp [2, 4, 1]) (Polynomial example_ZZ [2, 4, 1])
     8 example_printer ''FLINT'' ''fixed-mod'' False ''a'' example_Zp"

definition example_U_frac :: extension where
  "example_U_frac = Descriptor 107
     (Polynomial example_Zp [2, 4, 1]) (Polynomial example_ZZ [2, 4, 1])
     8 (Printer (dict example_printer ++ [''field'' \<mapsto> PyBool True](''field'' := None)))
     ''FLINT'' ''fixed-mod'' True ''a'' example_Zp"

text \<open>The same ring with the discipline \<open>capped-abs\<close>, and its field.\<close>

definition example_V :: extension where
  "example_V = Descriptor 8
     (Polynomial example_Zp [2, 4, 1]) (Polynomial example_ZZ [2, 4, 1])
     8 example_printer ''FLINT'' ''capped-abs'' False ''a'' example_Zp"

definition example_V_frac :: extension where
  "example_V_frac = Descriptor 108
     (Polynomial example_Zp [2, 4, 1]) (Polynomial example_ZZ [2, 4, 1])
     8 (Printer (dict example_printer ++ [''field'' \<mapsto> PyBool True](''field'' := None)))
     ''FLINT'' ''capped-abs'' True ''a'' example_Zp"

text \<open>
  A second example of \<open>change\<close>: the framework may keep one descriptor for each set of
  construction data, and then a ring that is asked for nothing but the field status it
  has already is handed back itself.
\<close>

definition example_change_unique :: "extension \<Rightarrow> (string \<rightharpoonup> py_value) \<Rightarrow> py_error + extension" where
  "example_change_unique self kwds =
     (if kwds = [''field'' \<mapsto> PyBool (is_field self)] then Inr self
      else example_change self kwds)"

definition example_env_unique :: env where
  "example_env_unique = example_env \<lparr> change := example_change_unique \<rparr>"

text \<open>
  Example element arithmetic: elements are integers, the generator is \<open>2\<close>, and the
  random generator is a counter that hands out its own value.
\<close>

definition example_ops :: "(int, int, nat) element_ops" where
  "example_ops =
     \<lparr> ground_random_element = (\<lambda>R s. (int s, Suc s)),
       gen = (\<lambda>self. 2),
       mul = (\<lambda>a e. a * e),
       pow = (\<lambda>e i. e ^ nat i),
       add = (\<lambda>x y. x + y),
       py_zero = 0 \<rparr>"

section \<open>Properties\<close>

declare dunder_eq.simps [simp del] py_eq.simps [simp del]
declare ground_ring_of_tower.simps [simp del] tower_height.simps [simp del]

lemmas example_defs = example_env_def example_W_def example_W_shifted_def example_f_def
  example_f_shifted_def example_f_given_def example_Zp_def example_ZZ_def example_printer_def
  example_tower_def example_change_def example_U_def example_U_frac_def example_V_def
  example_V_frac_def

subsection \<open>Equality\<close>

text \<open>
  \<open>__eq__\<close> is reflexive as soon as the comparisons of the collaborators are. The
  recursion through the ground rings is followed by the induction rule of the two
  functions; the environment, which the recursion never changes, stays inside the
  induction statement.
\<close>

lemma py_eq_refl_aux:
  "(\<forall>a. eq_other E a a) \<and> (\<forall>f. eq_polynomial E f f) \<and> (\<forall>q. richcmp_modes E q q op_EQ)
     \<Longrightarrow> other = PAdicExtension self \<Longrightarrow> dunder_eq E self other"
  "(\<forall>a. eq_other E a a) \<and> (\<forall>f. eq_polynomial E f f) \<and> (\<forall>q. richcmp_modes E q q op_EQ)
     \<Longrightarrow> b = a \<Longrightarrow> py_eq E a b"
proof (induction E self other and E a b rule: dunder_eq_py_eq.induct)
  case (1 E self other)
  then show ?case by (simp add: dunder_eq.simps)
next
  case (2 E a b)
  then show ?case by (cases a) (simp_all add: py_eq.simps)
qed

lemma dunder_eq_refl:
  assumes "\<And>a. eq_other E a a" and "\<And>f. eq_polynomial E f f"
    and "\<And>q. richcmp_modes E q q op_EQ"
  shows "dunder_eq E self (PAdicExtension self)"
  using assms py_eq_refl_aux(1) [of E "PAdicExtension self" self] by simp

lemma dunder_ne_not_eq: "dunder_ne E self other \<longleftrightarrow> \<not> dunder_eq E self other"
  by (simp add: dunder_ne_def)

text \<open>
  C1, as the specification states it, fails: \<open>example_W\<close> and \<open>example_W_shifted\<close> have
  the same ground ring, working polynomial, precision cap and printer, and exact defining
  polynomials that differ in the constant term. \<open>__eq__\<close> answers \<open>True\<close>; the equality
  that compares the exact polynomials answers \<open>False\<close>.
\<close>

theorem dunder_eq_exact_counterexample:
  "dunder_eq example_env example_W (PAdicExtension example_W_shifted) \<and>
   \<not> spec_equal example_env example_W (PAdicExtension example_W_shifted)"
  by (simp add: dunder_eq.simps py_eq.simps spec_equal_def defining_polynomial_def ground_ring_def
      example_env_def example_W_def example_W_shifted_def example_f_def example_f_shifted_def
      example_f_given_def example_Zp_def)

text \<open>
  C1 (amended): for every descriptor and every other operand, \<open>__eq__\<close> returns \<open>True\<close>
  iff the other operand is an extension descriptor too, the two ground rings are equal,
  the two working defining polynomials (\<open>_given_poly\<close>, which \<open>defining_polynomial()\<close>
  returns when called without \<open>exact\<close>) are equal, the two precision caps are equal, and
  \<open>richcmp_modes\<close> with \<open>op_EQ\<close> holds of the two printers. The exact defining
  polynomials are not compared.
\<close>

theorem dunder_eq_given_poly:
  "dunder_eq E self other \<longleftrightarrow>
     (\<exists>other'. other = PAdicExtension other' \<and>
        py_eq E (ground_ring self) (ground_ring other') \<and>
        eq_polynomial E (given_poly self) (given_poly other') \<and>
        precision_cap self = precision_cap other' \<and>
        richcmp_modes E (printer self) (printer other') op_EQ)"
  by (cases other) (simp_all add: dunder_eq.simps defining_polynomial_def)

theorem dunder_eq_given_poly_witness:
  "dunder_eq example_env example_W (PAdicExtension example_W_shifted) \<and>
   \<not> dunder_eq example_env example_W (PAdicExtension example_tower) \<and>
   \<not> dunder_eq example_env example_W example_Zp"
  unfolding dunder_eq_given_poly [of example_env example_W]
  by (simp add: py_eq.simps ground_ring_def example_defs)

subsection \<open>Coercion\<close>

text \<open>
  When the fraction field of \<open>R\<close> is \<open>self\<close>, the backend of \<open>self\<close> is not \<open>NTL\<close> and the
  precision discipline of \<open>R\<close> is none of the three that the \<open>elif\<close> chain names, the
  \<open>return\<close> statement reads the name \<open>coerce_map\<close>, which no branch has bound.
\<close>

lemma coerce_map_from_unbound:
  assumes "fraction_field E r None = Inr f" and "py_is f self"
    and "implementation self \<noteq> ''NTL''"
    and "prec_type r \<noteq> ''capped-abs''" and "prec_type r \<noteq> ''capped-rel''"
    and "prec_type r \<noteq> ''floating-point''"
  shows "coerce_map_from E self (PAdicExtension r) = Inl UnboundLocalError"
  using assms by (simp add: coerce_map_from_def)

text \<open>
  C2: the claim is that \<open>_coerce_map_from_\<close> completes without an error and yields no
  coercion when the precision discipline of \<open>R\<close> is unrecognized. On \<open>example_U\<close>, of
  discipline \<open>fixed-mod\<close> on the FLINT backend, whose fraction field is \<open>example_U_frac\<close>,
  the call raises \<open>UnboundLocalError\<close>.
\<close>

theorem coerce_map_from_unrecognized_raises:
  "coerce_map_from example_env example_U_frac (PAdicExtension example_U) = Inl UnboundLocalError"
  by (simp add: coerce_map_from_def fraction_field_def py_is_def example_defs)

text \<open>
  C3: \<open>_coerce_map_from_(R)\<close> returns something other than \<open>None\<close> only when \<open>R\<close> is an
  extension descriptor whose fraction field is \<open>self\<close>. In that case it returns \<open>True\<close>
  when the implementation of \<open>self\<close> is \<open>NTL\<close>, and otherwise the coercion-map object of
  the class that the precision discipline of \<open>R\<close> selects, built from \<open>R\<close> and \<open>self\<close>:
  \<open>pAdicCoercion_CA_frac_field\<close> for \<open>capped-abs\<close>, \<open>pAdicCoercion_CR_frac_field\<close> for
  \<open>capped-rel\<close>, \<open>pAdicCoercion_FP_frac_field\<close> for \<open>floating-point\<close>.
\<close>

theorem coerce_map_from_dispatch:
  "(\<forall>res. coerce_map_from E self R = Inr res \<and> res \<noteq> PyNone \<longrightarrow>
      (\<exists>r f. R = PAdicExtension r \<and> fraction_field E r None = Inr f \<and> py_is f self)) \<and>
   (\<forall>r f. R = PAdicExtension r \<and> fraction_field E r None = Inr f \<and> py_is f self \<longrightarrow>
      (implementation self = ''NTL'' \<longrightarrow> coerce_map_from E self R = Inr PyTrue) \<and>
      (implementation self \<noteq> ''NTL'' \<and> prec_type r = ''capped-abs'' \<longrightarrow>
         coerce_map_from E self R = Inr (CoercionMap pAdicCoercion_CA_frac_field r self)) \<and>
      (implementation self \<noteq> ''NTL'' \<and> prec_type r = ''capped-rel'' \<longrightarrow>
         coerce_map_from E self R = Inr (CoercionMap pAdicCoercion_CR_frac_field r self)) \<and>
      (implementation self \<noteq> ''NTL'' \<and> prec_type r = ''floating-point'' \<longrightarrow>
         coerce_map_from E self R = Inr (CoercionMap pAdicCoercion_FP_frac_field r self)))"
proof (intro conjI allI impI)
  fix res
  assume "coerce_map_from E self R = Inr res \<and> res \<noteq> PyNone"
  then show "\<exists>r f. R = PAdicExtension r \<and> fraction_field E r None = Inr f \<and> py_is f self"
    by (auto simp: coerce_map_from_def split: py_object.splits sum.splits if_splits)
qed (simp_all add: coerce_map_from_def)

theorem coerce_map_from_dispatch_witness:
  "coerce_map_from example_env example_V_frac (PAdicExtension example_V)
     = Inr (CoercionMap pAdicCoercion_CA_frac_field example_V example_V_frac) \<and>
   fraction_field example_env example_V None = Inr example_V_frac \<and>
   py_is example_V_frac example_V_frac \<and>
   implementation example_V_frac \<noteq> ''NTL'' \<and> prec_type example_V = ''capped-abs''"
proof -
  have f: "fraction_field example_env example_V None = Inr example_V_frac"
    by (simp add: fraction_field_def example_defs)
  have i: "py_is example_V_frac example_V_frac" by (simp add: py_is_def)
  have n: "implementation example_V_frac \<noteq> ''NTL''" by (simp add: example_defs)
  have t: "prec_type example_V = ''capped-abs''" by (simp add: example_defs)
  from coerce_map_from_dispatch [of example_env example_V_frac "PAdicExtension example_V"] f i n t
  show ?thesis by blast
qed

subsection \<open>Fraction field and ring of integers\<close>

text \<open>
  C5: \<open>fraction_field\<close> without a print-mode override is idempotent:
  \<open>d.fraction_field().fraction_field()\<close> is \<open>d.fraction_field()\<close> (an error of the first
  call is the result of both sides), and on a field the call returns the field itself.
  \<open>change\<close> belongs to \<open>pAdicGeneric\<close>; what is used of it is that the object it returns for
  \<open>field=True\<close> answers \<open>is_field()\<close> with \<open>True\<close>.
\<close>

theorem fraction_field_idempotent:
  assumes "\<And>f. change E d [''field'' \<mapsto> PyBool True] = Inr f \<Longrightarrow> is_field f"
  shows "(case fraction_field E d None of Inl e \<Rightarrow> Inl e | Inr f \<Rightarrow> fraction_field E f None)
           = fraction_field E d None
         \<and> (is_field d \<longrightarrow> fraction_field E d None = Inr d)"
proof (cases "is_field d")
  case True
  then show ?thesis by (simp add: fraction_field_def)
next
  case False
  then have eq: "fraction_field E d None = change E d [''field'' \<mapsto> PyBool True]"
    by (simp add: fraction_field_def)
  show ?thesis
  proof (cases "change E d [''field'' \<mapsto> PyBool True]")
    case (Inl e)
    with eq False show ?thesis by simp
  next
    case (Inr f)
    then have "is_field f" by (rule assms)
    then have "fraction_field E f None = Inr f" by (simp add: fraction_field_def)
    with eq Inr False show ?thesis by simp
  qed
qed

theorem fraction_field_idempotent_witness:
  "fraction_field example_env example_V None = Inr example_V_frac \<and>
   fraction_field example_env example_V_frac None = Inr example_V_frac"
proof -
  have c: "\<And>f. change example_env example_V [''field'' \<mapsto> PyBool True] = Inr f \<Longrightarrow> is_field f"
    by (auto simp: example_defs)
  have f: "fraction_field example_env example_V None = Inr example_V_frac"
    by (simp add: fraction_field_def example_defs)
  from fraction_field_idempotent [of example_env example_V, OF c] f show ?thesis by simp
qed

text \<open>
  C6: on a descriptor that is not a field, \<open>integer_ring()\<close> without a print-mode override
  returns the descriptor itself.
\<close>

theorem integer_ring_of_ring:
  "\<not> is_field d \<Longrightarrow> integer_ring E d None = Inr d"
  by (simp add: integer_ring_def)

theorem integer_ring_of_ring_witness:
  "\<not> is_field example_W \<and> integer_ring example_env example_W None = Inr example_W"
proof -
  have h: "\<not> is_field example_W" by (simp add: example_defs)
  from integer_ring_of_ring [OF h] h show ?thesis by simp
qed

text \<open>
  C10, as stated, fails in two ways on the field \<open>example_V_frac\<close>. With the empty
  dictionary and a \<open>change\<close> that hands back its receiver, \<open>fraction_field\<close> returns the
  descriptor itself, so \<open>None\<close> is not the only argument that does, and no new object is
  made. With a dictionary that has the key \<open>field\<close>, the call of \<open>change\<close> is never made:
  the keyword is given twice and Python raises \<open>TypeError\<close>.
\<close>

theorem fraction_field_override_counterexample:
  "is_field example_V_frac \<and>
   fraction_field example_env_unique example_V_frac (Some Map.empty) = Inr example_V_frac \<and>
   fraction_field example_env example_V_frac (Some [''field'' \<mapsto> PyBool True]) = Inl TypeError"
  by (simp add: fraction_field_def change_field_def example_env_unique_def
      example_change_unique_def example_defs)

text \<open>
  C10 (amended): on a descriptor \<open>d\<close> that is a field, \<open>fraction_field(None)\<close> returns \<open>d\<close>
  itself, and every dictionary \<open>m\<close>, the empty one included, leaves the path that returns
  \<open>self\<close>: the call raises \<open>TypeError\<close> when \<open>m\<close> has the key \<open>field\<close>, and otherwise its
  result is what \<open>change(field=True, **m)\<close> returns, a new object or not. The test of the
  fast path is \<open>print_mode is None\<close>, not whether the override is empty.
\<close>

theorem fraction_field_override:
  assumes "is_field d"
  shows "fraction_field E d None = Inr d
       \<and> (\<forall>m. fraction_field E d (Some m) =
                (if m ''field'' \<noteq> None then Inl TypeError
                 else change E d (m(''field'' \<mapsto> PyBool True))))
       \<and> fraction_field E d (Some Map.empty) = change E d [''field'' \<mapsto> PyBool True]"
  using assms by (simp add: fraction_field_def change_field_def)

theorem fraction_field_override_witness:
  "is_field example_V_frac \<and>
   fraction_field example_env example_V_frac None = Inr example_V_frac \<and>
   fraction_field example_env example_V_frac (Some [''pos'' \<mapsto> PyBool False])
     = change example_env example_V_frac [''pos'' \<mapsto> PyBool False, ''field'' \<mapsto> PyBool True] \<and>
   fraction_field example_env example_V_frac (Some Map.empty)
     = change example_env example_V_frac [''field'' \<mapsto> PyBool True]"
proof -
  have h: "is_field example_V_frac" by (simp add: example_defs)
  from fraction_field_override [OF h, of example_env] h show ?thesis by simp
qed

subsection \<open>The tower of ground rings\<close>

text \<open>
  Both lemmas follow the recursion of the method: the ground ring is a base ring, an
  extension (where the induction hypothesis speaks about it) or another object (which a
  tower of p-adic rings excludes).
\<close>

lemma tower_result:
  "tower_height d = Some h \<Longrightarrow> \<exists>b. ground_ring_of_tower d = Inr (PAdicBase b)"
proof (induction d arbitrary: h rule: tower_height.induct)
  case (1 self)
  show ?case
  proof (cases "ground_ring self")
    case (PAdicBase b)
    then show ?thesis by (simp add: ground_ring_of_tower.simps [of self])
  next
    case (PAdicExtension g)
    with "1.prems" obtain h' where "tower_height g = Some h'"
      by (auto simp: tower_height.simps [of self])
    with "1.IH" [OF PAdicExtension] PAdicExtension show ?thesis
      by (simp add: ground_ring_of_tower.simps [of self])
  next
    case (OtherObject n)
    with "1.prems" show ?thesis by (simp add: tower_height.simps [of self])
  qed
qed

lemma tower_depth:
  "tower_height d = Some h \<Longrightarrow>
     ground_ring_of_tower_depth k d = (if h \<le> k then Some (ground_ring_of_tower d) else None)"
proof (induction k d arbitrary: h rule: ground_ring_of_tower_depth.induct)
  case (1 self)
  then show ?case by (auto simp: tower_height.simps [of self] split: py_object.splits)
next
  case (2 k self)
  show ?case
  proof (cases "ground_ring self")
    case (PAdicBase b)
    with "2.prems" show ?thesis
      by (auto simp: tower_height.simps [of self] ground_ring_of_tower.simps [of self])
  next
    case (PAdicExtension g)
    with "2.prems" obtain h' where h': "tower_height g = Some h'" "h = Suc h'"
      by (auto simp: tower_height.simps [of self])
    from "2.IH" [OF PAdicExtension h'(1)] PAdicExtension h'(2) show ?thesis
      by (simp add: ground_ring_of_tower.simps [of self])
  next
    case (OtherObject n)
    with "2.prems" show ?thesis by (simp add: tower_height.simps [of self])
  qed
qed

text \<open>
  C8: on a descriptor over a finite tower of p-adic ground rings, of height \<open>h\<close>,
  \<open>ground_ring_of_tower()\<close> returns, and returns a p-adic base ring; the recursion is \<open>h\<close>
  calls deep: \<open>h\<close> nested calls are enough for the result and fewer are not.
\<close>

theorem ground_ring_of_tower_finite:
  assumes "tower_height d = Some h"
  shows "(\<exists>b. ground_ring_of_tower d = Inr (PAdicBase b)) \<and>
         ground_ring_of_tower_depth h d = Some (ground_ring_of_tower d) \<and>
         (\<forall>k. k < h \<longrightarrow> ground_ring_of_tower_depth k d = None)"
  using tower_result [OF assms] tower_depth [OF assms] by simp

theorem ground_ring_of_tower_finite_witness:
  "tower_height example_tower = Some 2 \<and>
   ground_ring_of_tower example_tower = Inr example_Zp \<and>
   ground_ring_of_tower_depth 2 example_tower = Some (Inr example_Zp) \<and>
   ground_ring_of_tower_depth 1 example_tower = None"
proof -
  have h: "tower_height example_tower = Some 2"
    by (simp add: tower_height.simps ground_ring_def example_defs)
  have r: "ground_ring_of_tower example_tower = Inr example_Zp"
    by (simp add: ground_ring_of_tower.simps ground_ring_def example_defs)
  have l: "(1::nat) < 2" by simp
  from ground_ring_of_tower_finite [OF h] l
  have "ground_ring_of_tower_depth 2 example_tower = Some (ground_ring_of_tower example_tower)"
    and "ground_ring_of_tower_depth 1 example_tower = None"
    by blast+
  with h r show ?thesis by simp
qed

subsection \<open>Random elements\<close>

lemma py_range_upt: "py_range n = map int [0..<nat n]"
proof -
  have "map int [0..<k] = [0..int k - 1]" for k
    by (induction k) (simp_all add: upto_rec2)
  from this [of "nat n"] show ?thesis
    by (cases "0 \<le> n") (simp_all add: py_range_def)
qed

text \<open>
  The list comprehension over the indices \<open>k, \<dots>, k + n - 1\<close>, entered after \<open>k\<close> draws:
  it makes the draws \<open>k, \<dots>, k + n - 1\<close>, one for each index.
\<close>

lemma random_terms_upt:
  "random_terms ops self (map int [k..<k + n]) (state_after ops self s k) =
     (map (\<lambda>i. mul ops (drawn ops self s i) (pow ops (gen ops self) (int i))) [k..<k + n],
      state_after ops self s (k + n))"
proof (induction n arbitrary: k)
  case 0
  then show ?case by simp
next
  case (Suc n)
  have l: "[k..<k + Suc n] = k # [Suc k..<Suc k + n]" by (simp add: upt_conv_Cons)
  show ?case unfolding l using Suc [of "Suc k"]
    by (auto simp: drawn_def split: prod.splits simp del: upt_Suc)
qed

text \<open>
  C7: \<open>random_element()\<close> draws exactly \<open>degree()\<close> random elements \<open>r\<^sub>0, \<dots>\<close> from the
  ground ring, one after the other (the generator is left in the state after \<open>degree()\<close>
  draws), and returns the sum, taken from \<open>0\<close> and from left to right, of the
  \<open>r\<^sub>i * gen ** i\<close> for \<open>i\<close> from \<open>0\<close> to \<open>degree() - 1\<close>.
\<close>

theorem random_element_sum:
  "random_element ops self s =
     (foldl (add ops) (py_zero ops)
        (map (\<lambda>i. mul ops (drawn ops self s i) (pow ops (gen ops self) (int i)))
           [0..<nat (degree self)]),
      state_after ops self s (nat (degree self)))"
  using random_terms_upt [of ops self 0 "nat (degree self)" s]
  by (simp add: random_element_def py_range_upt modulus_def defining_polynomial_def degree_def)

theorem random_element_sum_witness:
  "random_element example_ops example_W 3 =
     (3 * 2 ^ 0 + 4 * 2 ^ 1 + 5 * 2 ^ 2 + 6 * 2 ^ 3 + 7 * 2 ^ 4, 8)"
proof -
  have d: "nat (degree example_W) = 5"
    by (simp add: degree_def degree_poly_def example_defs)
  have u: "[0..<5] = [0, 1, 2, 3, 4]" by (simp add: upt_rec)
  have s: "state_after example_ops example_W 3 k = 3 + k" for k
    by (induction k) (simp_all add: example_ops_def)
  show ?thesis
    unfolding random_element_sum d u
    by (simp add: drawn_def s) (simp add: example_ops_def)
qed

subsection \<open>Construction\<close>

text \<open>
  What \<open>construction()\<close> returns: the base ring of \<open>self\<close>, and a functor that carries
  the exact modulus as a list of one element, the variable name, the precision cap, the
  dictionary of the printer and the implementation tag. What the functor does when it is
  applied belongs to \<open>AlgebraicExtensionFunctor\<close> and the extension factory.
\<close>

lemma construction_pair:
  "snd (construction self) = base_ring_of self \<and>
   aef_polys (fst (construction self)) = [exact_modulus self] \<and>
   aef_names (fst (construction self)) = [variable_name self] \<and>
   aef_prec (fst (construction self)) = precision_cap self \<and>
   aef_print_mode (fst (construction self)) = dict (printer self) \<and>
   aef_implementation (fst (construction self)) = implementation self"
  by (simp add: construction_def defining_polynomial_def)

end
